theory Spec2Isabelle
  imports Main
begin

section \<open>Outbound notification queue\<close>

text \<open>
  The queue of the messaging module: the module-level array \<open>messageQueue\<close>, the flag
  \<open>isProcessingQueue\<close>, the constant \<open>MESSAGE_RATE_LIMIT\<close>, and the two functions
  \<open>queueWhatsAppMessage\<close> and \<open>processMessageQueue\<close>.

  A job is a closure \<open>() => Promise<void>\<close> in the source. What the queue can observe of
  a job is whether its promise resolves or rejects, and which calls of
  \<open>queueWhatsAppMessage\<close> arrive (from the job itself or from any other producer) while
  the loop is suspended on the job and on the delay that follows it. A job is therefore
  a label, an outcome, and the jobs enqueued in the meantime. A job whose promise never
  settles is outside the model.

  Effects are recorded as a trace of events: a call of \<open>queueWhatsAppMessage\<close>
  (\<open>Enqueued\<close>), the invocation of a job by the loop (\<open>Started\<close>), a completed
  \<open>setTimeout\<close> delay in milliseconds (\<open>Waited\<close>) and a \<open>console.error\<close> of a caught
  error (\<open>Logged\<close>).
\<close>

datatype outcome = Resolves | Rejects string

datatype job = Job (label: nat) (outcome: outcome) (meanwhile: "job list")

datatype event = Enqueued nat | Started nat | Waited nat | Logged string

record onq =
  messageQueue :: "job list"
  isProcessingQueue :: bool

definition MESSAGE_RATE_LIMIT :: nat where
  "MESSAGE_RATE_LIMIT = 1000"

text \<open>\<open>messageQueue.push(messageFunction)\<close>.\<close>

definition push :: "onq \<Rightarrow> job \<Rightarrow> onq" where
  "push st j = st\<lparr>messageQueue := messageQueue st @ [j]\<rparr>"

text \<open>
  \<open>await messageFunction()\<close>: the job is invoked; the calls of \<open>queueWhatsAppMessage\<close>
  that arrive before the loop goes on find \<open>isProcessingQueue\<close> set, so each of them only
  pushes (lemma \<open>queueWhatsAppMessage_busy\<close> below).
\<close>

definition invoke :: "onq \<Rightarrow> job \<Rightarrow> onq \<times> event list" where
  "invoke st j =
     (foldl push st (meanwhile j),
      Started (label j) # map (\<lambda>k. Enqueued (label k)) (meanwhile j))"

text \<open>
  The \<open>try\<close>/\<open>catch\<close> of the loop body. The delay is the second statement of the
  \<open>try\<close> block: it is reached when the job's promise resolves; a rejection goes to the
  \<open>catch\<close> block, which logs the error.
\<close>

definition tryBlock :: "onq \<Rightarrow> job \<Rightarrow> onq \<times> event list" where
  "tryBlock st j =
     (case invoke st j of (st1, evs) \<Rightarrow>
        (case outcome j of
           Resolves \<Rightarrow> (st1, evs @ [Waited MESSAGE_RATE_LIMIT])
         | Rejects e \<Rightarrow> (st1, evs @ [Logged e])))"

text \<open>
  \<open>while (messageQueue.length > 0) { const messageFunction = messageQueue.shift(); ... }\<close>.
  The test \<open>if (messageFunction)\<close> always succeeds: the queue is not empty and a function
  is truthy.
\<close>

function whileLoop :: "onq \<Rightarrow> event list \<Rightarrow> onq \<times> event list" where
  "whileLoop st tr =
     (case messageQueue st of
        [] \<Rightarrow> (st, tr)
      | j # q \<Rightarrow>
          whileLoop (fst (tryBlock (st\<lparr>messageQueue := q\<rparr>) j))
                    (tr @ snd (tryBlock (st\<lparr>messageQueue := q\<rparr>) j)))"
  by pat_completeness auto
termination
proof (relation "measure (\<lambda>(st, tr). size_list size (messageQueue st))")
  show "wf (measure (\<lambda>(st, tr). size_list size (messageQueue st)))" by simp
next
  fix st :: onq and tr :: "event list" and j q
  assume q: "messageQueue st = j # q"
  have app: "messageQueue (foldl push s ks) = messageQueue s @ ks" for s ks
    by (induction ks arbitrary: s) (simp_all add: push_def)
  have "messageQueue (fst (tryBlock (st\<lparr>messageQueue := q\<rparr>) j)) = q @ meanwhile j"
    by (simp add: tryBlock_def invoke_def app split: outcome.split)
  moreover have "size_list size (meanwhile j) < size j"
    by (cases j) simp
  ultimately show "((fst (tryBlock (st\<lparr>messageQueue := q\<rparr>) j),
                     tr @ snd (tryBlock (st\<lparr>messageQueue := q\<rparr>) j)), (st, tr))
                   \<in> measure (\<lambda>(st, tr). size_list size (messageQueue st))"
    using q by simp
qed

definition processMessageQueue :: "onq \<Rightarrow> onq \<times> event list" where
  "processMessageQueue st =
     (case whileLoop (st\<lparr>isProcessingQueue := True\<rparr>) [] of
        (st1, tr) \<Rightarrow> (st1\<lparr>isProcessingQueue := False\<rparr>, tr))"

text \<open>
  \<open>queueWhatsAppMessage\<close> is an \<open>async\<close> function whose body awaits
  \<open>processMessageQueue()\<close> when the flag is down. The result is the state and the trace at
  the moment the promise it returns settles, which is when a caller that awaits it (as
  \<open>sendBulkWhatsAppMessages\<close> does) gets control back.
\<close>

definition queueWhatsAppMessage :: "onq \<Rightarrow> job \<Rightarrow> onq \<times> event list" where
  "queueWhatsAppMessage st messageFunction =
     (let st1 = push st messageFunction in
      if \<not> isProcessingQueue st1
      then (case processMessageQueue st1 of
              (st2, tr) \<Rightarrow> (st2, Enqueued (label messageFunction) # tr))
      else (st1, [Enqueued (label messageFunction)]))"

text \<open>
  A producer that awaits one call of \<open>queueWhatsAppMessage\<close> after the other, as the
  \<open>for\<close> loop of \<open>sendBulkWhatsAppMessages\<close> does.
\<close>

fun enqueueAll :: "onq \<Rightarrow> job list \<Rightarrow> onq \<times> event list" where
  "enqueueAll st [] = (st, [])"
| "enqueueAll st (j # js) =
     (case queueWhatsAppMessage st j of (st1, tr1) \<Rightarrow>
        (case enqueueAll st1 js of (st2, tr2) \<Rightarrow> (st2, tr1 @ tr2)))"

text \<open>The module's initial state: an empty array and the flag down.\<close>

definition idle :: onq where
  "idle = \<lparr>messageQueue = [], isProcessingQueue = False\<rparr>"

text \<open>Observers of a trace: the labels of the jobs started, and of the jobs enqueued.\<close>

fun started :: "event list \<Rightarrow> nat list" where
  "started [] = []"
| "started (Started n # es) = n # started es"
| "started (e # es) = started es"

fun enqueued :: "event list \<Rightarrow> nat list" where
  "enqueued [] = []"
| "enqueued (Enqueued n # es) = n # enqueued es"
| "enqueued (e # es) = enqueued es"

text \<open>The events of one iteration of the loop on job \<open>j\<close>.\<close>

definition job_events :: "job \<Rightarrow> event list" where
  "job_events j =
     Started (label j) # map (\<lambda>k. Enqueued (label k)) (meanwhile j) @
     [case outcome j of Resolves \<Rightarrow> Waited MESSAGE_RATE_LIMIT | Rejects e \<Rightarrow> Logged e]"


section \<open>Retry with exponential backoff\<close>

text \<open>
  \<open>sendWhatsAppWithRetry(to, message, maxRetries = 3, mediaUrl)\<close>. The provider call
  \<open>sendWhatsAppMessage\<close> is a parameter: \<open>send k to message mediaUrl\<close> is what its
  \<open>k\<close>-th invocation does, either throwing an \<open>Error\<close> with the given message (\<open>Inl\<close>)
  or returning a response (\<open>Inr\<close>). \<open>maxRetries\<close> is a JavaScript number; the model
  covers the integers. The trace records each invocation of the provider call and each
  completed backoff delay in milliseconds; console output is left out.
\<close>

record WhatsAppResponse =
  messageId :: string
  status :: string
  timestamp :: string
  provider :: string

datatype js_error = Error (message: string)

datatype send_event = Attempt int | Backoff int

type_synonym send_primitive =
  "int \<Rightarrow> string \<Rightarrow> string \<Rightarrow> string option \<Rightarrow> string + WhatsAppResponse"

text \<open>
  \<open>${maxRetries}\<close>: a template literal renders an integral number in decimal, with a
  minus sign when it is negative. \<open>numberToString\<close> writes out every digit, which is
  what JavaScript prints for the safe integers, those of magnitude at most
  \<open>2^53 - 1 = 9007199254740991\<close>. Beyond them JavaScript prints the shortest digits that
  round-trip, and exponent form from \<open>1e21\<close>; \<open>numberToString\<close> is not meant for
  those, and no statement below relies on it there.
\<close>

definition digit :: "nat \<Rightarrow> char" where
  "digit d = ''0123456789'' ! d"

fun decimal :: "nat \<Rightarrow> string \<Rightarrow> string" where
  "decimal n acc =
     (if n div 10 = 0 then digit (n mod 10) # acc
      else decimal (n div 10) (digit (n mod 10) # acc))"

definition numberToString :: "int \<Rightarrow> string" where
  "numberToString x =
     (if 0 \<le> x then decimal (nat x) [] else CHR ''-'' # decimal (nat (- x)) [])"

text \<open>
  The message of the error thrown after the loop. \<open>lastError?.message\<close> is
  \<open>undefined\<close> when \<open>lastError\<close> is still \<open>null\<close>, and a template literal renders
  that as the text \<open>undefined\<close>.
\<close>

definition failureMessage :: "int \<Rightarrow> string option \<Rightarrow> string" where
  "failureMessage maxRetries lastError =
     ''WhatsApp send failed after '' @ numberToString maxRetries @
     '' attempts. Last error: '' @
     (case lastError of None \<Rightarrow> ''undefined'' | Some m \<Rightarrow> m)"

function retryLoop ::
  "send_primitive \<Rightarrow> string \<Rightarrow> string \<Rightarrow> string option \<Rightarrow> int \<Rightarrow> int \<Rightarrow>
   string option \<Rightarrow> send_event list \<Rightarrow> (js_error + WhatsAppResponse) \<times> send_event list"
where
  "retryLoop send to msg mediaUrl maxRetries attempt lastError tr =
     (if attempt \<le> maxRetries then
        (case send attempt to msg mediaUrl of
           Inr response \<Rightarrow> (Inr response, tr @ [Attempt attempt])
         | Inl e \<Rightarrow>
             (if attempt < maxRetries
              then retryLoop send to msg mediaUrl maxRetries (attempt + 1) (Some e)
                     (tr @ [Attempt attempt, Backoff (2 ^ nat attempt * 1000)])
              else retryLoop send to msg mediaUrl maxRetries (attempt + 1) (Some e)
                     (tr @ [Attempt attempt])))
      else (Inl (Error (failureMessage maxRetries lastError)), tr))"
  by pat_completeness auto
termination
  by (relation "measure (\<lambda>(send, to, msg, mediaUrl, maxRetries, attempt, lastError, tr).
                            nat (maxRetries + 1 - attempt))") auto

definition sendWhatsAppWithRetry ::
  "send_primitive \<Rightarrow> string \<Rightarrow> string \<Rightarrow> int option \<Rightarrow> string option \<Rightarrow>
   (js_error + WhatsAppResponse) \<times> send_event list"
where
  "sendWhatsAppWithRetry send to msg maxRetries mediaUrl =
     retryLoop send to msg mediaUrl (case maxRetries of None \<Rightarrow> 3 | Some n \<Rightarrow> n) 1 None []"


section \<open>Data access layer\<close>

text \<open>
  \<open>DatabaseHelper\<close> wraps a handle of the SQLite driver, which is not part of the
  repository. The driver is a parameter: \<open>query_rows\<close> is the result set a statement
  text yields with the given positional parameters on a database, or the message of the
  error the driver throws; \<open>run_changes\<close> is the number of rows a statement changed,
  with the database after it. A prepared statement's \<open>all\<close> returns the result set,
  its \<open>get\<close> the first row of it or \<open>undefined\<close>, its \<open>run\<close> the number of changes.

  A row and the \<open>data\<close> object of \<open>update\<close> are lists of column and value, in the
  order of \<open>Object.keys\<close>.
\<close>

datatype sql_value = Null | Integer int | Text string | Boolean bool

type_synonym row = "(string \<times> sql_value) list"

record 'db driver =
  query_rows :: "'db \<Rightarrow> string \<Rightarrow> sql_value list \<Rightarrow> string + row list"
  run_changes :: "'db \<Rightarrow> string \<Rightarrow> sql_value list \<Rightarrow> string + nat \<times> 'db"

definition stmt_all ::
  "'db driver \<Rightarrow> 'db \<Rightarrow> string \<Rightarrow> sql_value list \<Rightarrow> string + row list" where
  "stmt_all drv db query params = query_rows drv db query params"

definition stmt_get ::
  "'db driver \<Rightarrow> 'db \<Rightarrow> string \<Rightarrow> sql_value list \<Rightarrow> string + row option" where
  "stmt_get drv db query params =
     (case query_rows drv db query params of
        Inl e \<Rightarrow> Inl e
      | Inr [] \<Rightarrow> Inr None
      | Inr (r # rs) \<Rightarrow> Inr (Some r))"

definition stmt_run ::
  "'db driver \<Rightarrow> 'db \<Rightarrow> string \<Rightarrow> sql_value list \<Rightarrow> string + nat \<times> 'db" where
  "stmt_run drv db query params = run_changes drv db query params"

text \<open>\<open>Array.prototype.join\<close>.\<close>

fun join :: "string \<Rightarrow> string list \<Rightarrow> string" where
  "join sep [] = []"
| "join sep [x] = x"
| "join sep (x # y # ys) = x @ sep @ join sep (y # ys)"

text \<open>
  \<open>selectAll(table, where?, params?)\<close>: an omitted argument is \<open>None\<close>. \<open>if (where)\<close>
  holds for a string that is present and not empty; \<open>params || []\<close> is the array when
  one is given.
\<close>

definition selectAll_query :: "string \<Rightarrow> string option \<Rightarrow> string" where
  "selectAll_query table where =
     (let query = ''SELECT * FROM '' @ table in
      case where of
        None \<Rightarrow> query
      | Some w \<Rightarrow> if w \<noteq> [] then query @ '' WHERE '' @ w else query)"

definition selectAll ::
  "'db driver \<Rightarrow> 'db \<Rightarrow> string \<Rightarrow> string option \<Rightarrow> sql_value list option \<Rightarrow>
   string + row list" where
  "selectAll drv db table where params =
     stmt_all drv db (selectAll_query table where)
       (case params of None \<Rightarrow> [] | Some ps \<Rightarrow> ps)"

definition selectOne_query :: "string \<Rightarrow> string \<Rightarrow> string" where
  "selectOne_query table where = ''SELECT * FROM '' @ table @ '' WHERE '' @ where @ '' LIMIT 1''"

definition selectOne ::
  "'db driver \<Rightarrow> 'db \<Rightarrow> string \<Rightarrow> string \<Rightarrow> sql_value list \<Rightarrow> string + row option" where
  "selectOne drv db table where params =
     stmt_get drv db (selectOne_query table where) params"

definition update_query :: "string \<Rightarrow> row \<Rightarrow> string \<Rightarrow> string" where
  "update_query table data where =
     (let keys = map fst data;
          setClause = join '', '' (map (\<lambda>key. key @ '' = ?'') keys)
      in ''UPDATE '' @ table @ '' SET '' @ setClause @
         '', updated_at = CURRENT_TIMESTAMP WHERE '' @ where)"

definition update ::
  "'db driver \<Rightarrow> 'db \<Rightarrow> string \<Rightarrow> row \<Rightarrow> string \<Rightarrow> sql_value list \<Rightarrow>
   string + bool \<times> 'db" where
  "update drv db table data where whereParams =
     (let values = map snd data in
      case stmt_run drv db (update_query table data where) (values @ whereParams) of
        Inl e \<Rightarrow> Inl e
      | Inr (changes, db') \<Rightarrow> Inr (changes > 0, db'))"

subsection \<open>A reference store\<close>

text \<open>
  What \<open>update\<close> does to the rows is decided by the store that executes the statement
  text. The store is SQLite, reached through the driver, and is not part of the
  repository. To state the effect of \<open>update\<close> on rows, the following is a model of how
  SQLite executes the statements of the shape \<open>update\<close> builds,
  \<open>UPDATE t SET c = ?, ..., c = CURRENT_TIMESTAMP WHERE w\<close>, written with single spaces
  as the template writes them. What the model does not decide is a parameter, the
  \<open>engine\<close>: the value of \<open>CURRENT_TIMESTAMP\<close>; the names that are not taken as an
  ordinary table or column name (the reserved words, and names with a meaning of their
  own such as \<open>rowid\<close>); the condition on a row that a where-fragment stands for, given
  all positional parameters and the number of placeholders before the fragment (or that
  the fragment is rejected); the conversion a column applies to a stored value; whether
  the constraints admit the new contents; and the result of queries. The model has no
  triggers and no cascading foreign keys, as the schema of \<open>initializeDatabase\<close> has
  none. A text of any other shape, or with a name that is not plain, is reported as not
  understood; SQLite accepts more, and nothing below is stated about such a text.

  A database is a list of named tables; a table has its column names and its rows.
\<close>

datatype sql_expr = Placeholder | CurrentTimestamp

record table =
  tbl_columns :: "string list"
  tbl_rows :: "row list"

type_synonym database = "(string \<times> table) list"

record engine =
  current_timestamp :: sql_value
  reserved :: "string \<Rightarrow> bool"
  where_eval ::
    "database \<Rightarrow> string \<Rightarrow> string \<Rightarrow> nat \<Rightarrow> sql_value list \<Rightarrow> (row \<Rightarrow> bool) option"
  affinity :: "string \<Rightarrow> string \<Rightarrow> sql_value \<Rightarrow> sql_value"
  admits :: "database \<Rightarrow> bool"
  select_eval :: "database \<Rightarrow> string \<Rightarrow> sql_value list \<Rightarrow> string + row list"

text \<open>SQLite compares table and column names without regard to ASCII case.\<close>

definition lower_char :: "char \<Rightarrow> char" where
  "lower_char c =
     (case map_of (zip ''ABCDEFGHIJKLMNOPQRSTUVWXYZ'' ''abcdefghijklmnopqrstuvwxyz'') c of
        None \<Rightarrow> c | Some l \<Rightarrow> l)"

definition same_name :: "string \<Rightarrow> string \<Rightarrow> bool" where
  "same_name a b = (map lower_char a = map lower_char b)"

text \<open>
  A plain name: letters, digits and underscores, not starting with a digit, and not
  reserved.
\<close>

definition name_char :: "char \<Rightarrow> bool" where
  "name_char c =
     (c \<in> set ''abcdefghijklmnopqrstuvwxyzABCDEFGHIJKLMNOPQRSTUVWXYZ0123456789_'')"

definition digit_char :: "char \<Rightarrow> bool" where
  "digit_char c = (c \<in> set ''0123456789'')"

definition plain_name :: "engine \<Rightarrow> string \<Rightarrow> bool" where
  "plain_name eng n =
     (case n of [] \<Rightarrow> False
      | c # cs \<Rightarrow> list_all name_char n \<and> \<not> digit_char c \<and> \<not> reserved eng n)"

text \<open>
  The statement text is cut at single spaces; \<open>join '' ''\<close> puts the where-fragment
  back together unchanged.
\<close>

fun split_spaces :: "string \<Rightarrow> string list" where
  "split_spaces [] = [[]]"
| "split_spaces (c # cs) =
     (if c = CHR '' '' then [] # split_spaces cs
      else (case split_spaces cs of [] \<Rightarrow> [[c]] | w # ws \<Rightarrow> (c # w) # ws))"

fun parse_set ::
  "engine \<Rightarrow> string list \<Rightarrow> ((string \<times> sql_expr) list \<times> string list) option" where
  "parse_set eng (name # eq # rhs # rest) =
     (if \<not> plain_name eng name \<or> eq \<noteq> ''='' then None
      else if rhs = ''?,''
        then map_option (\<lambda>(as, w). ((name, Placeholder) # as, w)) (parse_set eng rest)
      else if rhs = ''CURRENT_TIMESTAMP,''
        then map_option (\<lambda>(as, w). ((name, CurrentTimestamp) # as, w)) (parse_set eng rest)
      else (case rest of
              [] \<Rightarrow> None
            | kw # w \<Rightarrow>
                if kw \<noteq> ''WHERE'' then None
                else if rhs = ''?'' then Some ([(name, Placeholder)], w)
                else if rhs = ''CURRENT_TIMESTAMP'' then Some ([(name, CurrentTimestamp)], w)
                else None))"
| "parse_set eng ws = None"

definition parse_update ::
  "engine \<Rightarrow> string \<Rightarrow> (string \<times> (string \<times> sql_expr) list \<times> string) option" where
  "parse_update eng text =
     (case split_spaces text of
        kw # t # st # rest \<Rightarrow>
          if kw = ''UPDATE'' \<and> st = ''SET'' \<and> plain_name eng t
          then map_option (\<lambda>(as, w). (t, as, join '' '' w)) (parse_set eng rest)
          else None
      | _ \<Rightarrow> None)"

text \<open>
  Placeholders take the positional parameters from left to right, those of the \<open>SET\<close>
  list first; a placeholder with no parameter left is \<open>NULL\<close>.
\<close>

fun bind_assignments ::
  "sql_value \<Rightarrow> (string \<times> sql_expr) list \<Rightarrow> sql_value list \<Rightarrow> (string \<times> sql_value) list"
where
  "bind_assignments now [] ps = []"
| "bind_assignments now ((c, CurrentTimestamp) # as) ps = (c, now) # bind_assignments now as ps"
| "bind_assignments now ((c, Placeholder) # as) [] = (c, Null) # bind_assignments now as []"
| "bind_assignments now ((c, Placeholder) # as) (p # ps) = (c, p) # bind_assignments now as ps"

definition placeholders :: "(string \<times> sql_expr) list \<Rightarrow> nat" where
  "placeholders as = length (filter (\<lambda>(c, e). e = Placeholder) as)"

text \<open>
  The assignments are applied from left to right, so that the rightmost assignment to a
  column is the one that counts. Only the value of a column changes, never the columns
  of a row.
\<close>

definition set_column :: "string \<Rightarrow> sql_value \<Rightarrow> row \<Rightarrow> row" where
  "set_column c v r = map (\<lambda>(c', v'). if same_name c' c then (c', v) else (c', v')) r"

definition assign_row :: "engine \<Rightarrow> string \<Rightarrow> (string \<times> sql_value) list \<Rightarrow> row \<Rightarrow> row" where
  "assign_row eng t cvs r = foldl (\<lambda>r (c, v). set_column c (affinity eng t c v) r) r cvs"

definition lookup_table :: "database \<Rightarrow> string \<Rightarrow> table option" where
  "lookup_table db t = map_option snd (find (\<lambda>(n, tbl). same_name n t) db)"

definition replace_table :: "database \<Rightarrow> string \<Rightarrow> table \<Rightarrow> database" where
  "replace_table db t tbl = map (\<lambda>(n, old). if same_name n t then (n, tbl) else (n, old)) db"

text \<open>
  Executing the statement: the where-fragment is evaluated on each row as it was; the
  rows it selects get the assignments; the count is the number of selected rows. An
  unknown table or column, a rejected where-fragment or a constraint that fails is an
  error, and the database stays as it was.
\<close>

definition sqlite_run ::
  "engine \<Rightarrow> database \<Rightarrow> string \<Rightarrow> sql_value list \<Rightarrow> string + nat \<times> database" where
  "sqlite_run eng db text params =
     (case parse_update eng text of
        None \<Rightarrow> Inl ''statement not understood''
      | Some (t, as, w) \<Rightarrow>
          (case lookup_table db t of
             None \<Rightarrow> Inl ''no such table''
           | Some tbl \<Rightarrow>
               if \<not> list_all (\<lambda>(c, e). list_ex (same_name c) (tbl_columns tbl)) as
               then Inl ''no such column''
               else (case where_eval eng db t w (placeholders as) params of
                  None \<Rightarrow> Inl ''where-clause not understood''
                | Some matches \<Rightarrow>
                    (let cvs = bind_assignments (current_timestamp eng) as params;
                         db' = replace_table db t
                           (tbl\<lparr>tbl_rows :=
                              map (\<lambda>r. if matches r then assign_row eng t cvs r else r)
                                  (tbl_rows tbl)\<rparr>)
                     in if admits eng db'
                        then Inr (length (filter matches (tbl_rows tbl)), db')
                        else Inl ''constraint failed''))))"

definition sqlite :: "engine \<Rightarrow> database driver" where
  "sqlite eng = \<lparr>query_rows = select_eval eng, run_changes = sqlite_run eng\<rparr>"

text \<open>
  A sample engine and database to run the model on: the \<open>settings\<close> table with two of
  the rows \<open>initializeDatabase\<close> inserts, and the empty \<open>admin_users\<close> table. The
  sample engine understands the where-fragment \<open>key = ?\<close>, whose placeholder takes
  the first parameter after those of the \<open>SET\<close> list.
\<close>

definition sample_engine :: engine where
  "sample_engine =
     \<lparr>current_timestamp = Text ''2024-06-01 12:00:00'',
      reserved = (\<lambda>n. List.member
         [''update'', ''set'', ''where'', ''select'', ''from'', ''rowid'', ''oid'', ''_rowid_'']
         (map lower_char n)),
      where_eval = (\<lambda>db t w n ps.
         if w = ''key = ?''
         then (case drop n ps of [v] \<Rightarrow> Some (\<lambda>r. map_of r ''key'' = Some v) | _ \<Rightarrow> None)
         else None),
      affinity = (\<lambda>t c v. v),
      admits = (\<lambda>db. True),
      select_eval = (\<lambda>db q ps. Inl ''not a query'')\<rparr>"

definition sample_settings :: database where
  "sample_settings =
     [(''settings'',
       \<lparr>tbl_columns = [''id'', ''key'', ''value'', ''description'', ''updated_at''],
        tbl_rows =
          [[(''id'', Integer 1), (''key'', Text ''whatsapp_number''), (''value'', Text ''+1234567890''),
            (''description'', Text ''WhatsApp Business number''),
            (''updated_at'', Text ''2024-01-01 00:00:00'')],
           [(''id'', Integer 2), (''key'', Text ''company_name''),
            (''value'', Text ''Prestige Timepieces''), (''description'', Text ''Company name''),
            (''updated_at'', Text ''2024-01-01 00:00:00'')]]\<rparr>),
      (''admin_users'',
       \<lparr>tbl_columns = [''id'', ''username'', ''password_hash'', ''email'', ''role'',
                       ''last_login'', ''created_at''],
        tbl_rows = []\<rparr>)]"


section \<open>Properties of the queue\<close>

declare whileLoop.simps [simp del]

lemma foldl_push:
  "foldl push st ks = st\<lparr>messageQueue := messageQueue st @ ks\<rparr>"
  by (induction ks arbitrary: st) (simp_all add: push_def)

lemma tryBlock_eq:
  "tryBlock st j = (st\<lparr>messageQueue := messageQueue st @ meanwhile j\<rparr>, job_events j)"
  by (simp add: tryBlock_def invoke_def job_events_def foldl_push split: outcome.split)

lemma whileLoop_Nil:
  "messageQueue st = [] \<Longrightarrow> whileLoop st tr = (st, tr)"
  by (subst whileLoop.simps) simp

lemma whileLoop_Cons:
  "messageQueue st = j # q \<Longrightarrow>
   whileLoop st tr = whileLoop (st\<lparr>messageQueue := q @ meanwhile j\<rparr>) (tr @ job_events j)"
  by (subst whileLoop.simps) (simp add: tryBlock_eq)

lemma whileLoop_prefix:
  "messageQueue st = q1 @ q2 \<Longrightarrow>
   whileLoop st tr =
   whileLoop (st\<lparr>messageQueue := q2 @ concat (map meanwhile q1)\<rparr>)
             (tr @ concat (map job_events q1))"
proof (induction q1 arbitrary: st tr q2)
  case Nil
  then show ?case by (cases st) simp
next
  case (Cons j q1)
  have "whileLoop st tr =
        whileLoop (st\<lparr>messageQueue := q1 @ (q2 @ meanwhile j)\<rparr>) (tr @ job_events j)"
    using Cons.prems by (simp add: whileLoop_Cons)
  also have "\<dots> = whileLoop (st\<lparr>messageQueue := (q2 @ meanwhile j) @ concat (map meanwhile q1)\<rparr>)
                     ((tr @ job_events j) @ concat (map job_events q1))"
    using Cons.IH [of "st\<lparr>messageQueue := q1 @ (q2 @ meanwhile j)\<rparr>" "q2 @ meanwhile j" "tr @ job_events j"]
    by simp
  finally show ?case by simp
qed

lemma whileLoop_fst:
  "fst (whileLoop st tr) = st\<lparr>messageQueue := []\<rparr>"
proof (induction st tr rule: whileLoop.induct)
  case (1 st tr)
  show ?case
  proof (cases "messageQueue st")
    case Nil
    then show ?thesis by (simp add: whileLoop_Nil)
  next
    case (Cons j q)
    then show ?thesis
      using "1.IH" [OF Cons] by (simp add: whileLoop_Cons tryBlock_eq)
  qed
qed

lemma whileLoop_acc:
  "snd (whileLoop st tr) = tr @ snd (whileLoop st [])"
proof (induction "size_list size (messageQueue st)" arbitrary: st tr rule: less_induct)
  case less
  show ?case
  proof (cases "messageQueue st")
    case Nil
    then show ?thesis by (simp add: whileLoop_Nil)
  next
    case (Cons j q)
    let ?st = "st\<lparr>messageQueue := q @ meanwhile j\<rparr>"
    have m: "size_list size (messageQueue ?st) < size_list size (messageQueue st)"
      using Cons by (cases j) simp
    have "snd (whileLoop st tr) = snd (whileLoop ?st (tr @ job_events j))"
      using Cons by (simp add: whileLoop_Cons)
    also have "\<dots> = (tr @ job_events j) @ snd (whileLoop ?st [])"
      by (rule less [OF m])
    also have "\<dots> = tr @ snd (whileLoop ?st ([] @ job_events j))"
      using less [OF m, of "[] @ job_events j"] by simp
    also have "\<dots> = tr @ snd (whileLoop st [])"
      using Cons by (simp add: whileLoop_Cons)
    finally show ?thesis .
  qed
qed

lemma started_append: "started (xs @ ys) = started xs @ started ys"
  by (induction xs rule: started.induct) simp_all

lemma enqueued_append: "enqueued (xs @ ys) = enqueued xs @ enqueued ys"
  by (induction xs rule: enqueued.induct) simp_all

lemma started_map_Enqueued: "started (map (\<lambda>k. Enqueued (f k)) ks) = []"
  by (induction ks) simp_all

lemma enqueued_map_Enqueued: "enqueued (map (\<lambda>k. Enqueued (f k)) ks) = map f ks"
  by (induction ks) simp_all

lemma started_job_events: "started (job_events j) = [label j]"
  by (simp add: job_events_def started_append started_map_Enqueued split: outcome.split)

lemma enqueued_job_events: "enqueued (job_events j) = map label (meanwhile j)"
  by (simp add: job_events_def enqueued_append enqueued_map_Enqueued split: outcome.split)

lemma whileLoop_started:
  "started (snd (whileLoop st [])) = map label (messageQueue st) @ enqueued (snd (whileLoop st []))"
proof (induction "size_list size (messageQueue st)" arbitrary: st rule: less_induct)
  case less
  show ?case
  proof (cases "messageQueue st")
    case Nil
    then show ?thesis by (simp add: whileLoop_Nil)
  next
    case (Cons j q)
    let ?st = "st\<lparr>messageQueue := q @ meanwhile j\<rparr>"
    have m: "size_list size (messageQueue ?st) < size_list size (messageQueue st)"
      using Cons by (cases j) simp
    have tr: "snd (whileLoop st []) = job_events j @ snd (whileLoop ?st [])"
      using Cons whileLoop_acc [of ?st "job_events j"] by (simp add: whileLoop_Cons)
    show ?thesis
      using less [OF m] Cons
      by (simp add: tr started_append enqueued_append started_job_events enqueued_job_events)
  qed
qed

lemma whileLoop_jobs:
  "\<exists>js. snd (whileLoop st []) = concat (map job_events js) \<and>
        js = messageQueue st @ concat (map meanwhile js)"
proof (induction "size_list size (messageQueue st)" arbitrary: st rule: less_induct)
  case less
  show ?case
  proof (cases "messageQueue st")
    case Nil
    then have "snd (whileLoop st []) = concat (map job_events []) \<and>
               [] = messageQueue st @ concat (map meanwhile [])"
      by (simp add: whileLoop_Nil)
    then show ?thesis by blast
  next
    case (Cons j q)
    let ?st = "st\<lparr>messageQueue := q @ meanwhile j\<rparr>"
    have m: "size_list size (messageQueue ?st) < size_list size (messageQueue st)"
      using Cons by (cases j) simp
    obtain js where js: "snd (whileLoop ?st []) = concat (map job_events js)"
      "js = messageQueue ?st @ concat (map meanwhile js)"
      using less [OF m] by blast
    have tr: "snd (whileLoop st []) = job_events j @ snd (whileLoop ?st [])"
      using Cons whileLoop_acc [of ?st "job_events j"] by (simp add: whileLoop_Cons)
    have "snd (whileLoop st []) = concat (map job_events (j # js)) \<and>
          j # js = messageQueue st @ concat (map meanwhile (j # js))"
      using js Cons tr by simp
    then show ?thesis by blast
  qed
qed

lemma processMessageQueue_fst:
  "fst (processMessageQueue st) = \<lparr>messageQueue = [], isProcessingQueue = False\<rparr>"
  using whileLoop_fst [of "st\<lparr>isProcessingQueue := True\<rparr>" "[]"]
  by (cases st) (simp add: processMessageQueue_def case_prod_beta)

lemma processMessageQueue_snd:
  "snd (processMessageQueue st) = snd (whileLoop (st\<lparr>isProcessingQueue := True\<rparr>) [])"
  by (simp add: processMessageQueue_def case_prod_beta)

lemma queueWhatsAppMessage_busy:
  "isProcessingQueue st \<Longrightarrow>
   queueWhatsAppMessage st j = (push st j, [Enqueued (label j)])"
  by (simp add: queueWhatsAppMessage_def push_def)

lemma queueWhatsAppMessage_idle:
  "\<not> isProcessingQueue st \<Longrightarrow>
   queueWhatsAppMessage st j =
   (idle, Enqueued (label j) # snd (processMessageQueue (push st j)))"
  using processMessageQueue_fst [of "push st j"]
  by (simp add: queueWhatsAppMessage_def push_def idle_def case_prod_beta prod_eq_iff)

lemma enqueueAll_idle:
  "fst (enqueueAll idle js) = idle \<and>
   started (snd (enqueueAll idle js)) = enqueued (snd (enqueueAll idle js))"
proof (induction js)
  case Nil
  show ?case by simp
next
  case (Cons j js)
  have q: "queueWhatsAppMessage idle j =
           (idle, Enqueued (label j) # snd (processMessageQueue (push idle j)))"
    by (rule queueWhatsAppMessage_idle) (simp add: idle_def)
  have s: "started (snd (processMessageQueue (push idle j))) =
           label j # enqueued (snd (processMessageQueue (push idle j)))"
    using whileLoop_started [of "push idle j\<lparr>isProcessingQueue := True\<rparr>"]
    by (simp add: processMessageQueue_snd push_def idle_def)
  show ?case
    using Cons.IH
    by (simp add: q s started_append enqueued_append case_prod_beta)
qed

text \<open>
  While the flag is set, \<open>queueWhatsAppMessage\<close> only pushes; this is the path every
  call takes that arrives during \<open>invoke\<close>.
\<close>

lemma foldl_queueWhatsAppMessage_busy:
  "isProcessingQueue st \<Longrightarrow>
   foldl (\<lambda>s k. fst (queueWhatsAppMessage s k)) st ks = foldl push st ks"
  by (induction ks arbitrary: st) (simp_all add: queueWhatsAppMessage_busy push_def)

text \<open>
  Claim C1. The claim is that the loop waits the fixed delay after every job, whether the
  job succeeded or raised an error. The theorem runs the code on a job that rejects and
  a second job enqueued while the first runs: the error is logged and the second job is
  started with no delay in between; the only delay follows the second job.
\<close>

theorem drain_skips_delay_after_rejection:
  "queueWhatsAppMessage idle (Job 1 (Rejects ''boom'') [Job 2 Resolves []]) =
   (idle, [Enqueued 1, Started 1, Enqueued 2, Logged ''boom'', Started 2, Waited 1000])"
  by (simp add: queueWhatsAppMessage_def processMessageQueue_def push_def idle_def
      whileLoop_Cons whileLoop_Nil job_events_def MESSAGE_RATE_LIMIT_def)

text \<open>
  Claim C2, as stated: a call of \<open>queueWhatsAppMessage\<close> returns without executing a
  job or waiting a delay, also when it is the call that starts the loop. On the idle
  queue the call has executed the job and waited the delay when it returns.
\<close>

theorem enqueue_starting_drain_counterexample:
  "queueWhatsAppMessage idle (Job 1 Resolves []) =
   (idle, [Enqueued 1, Started 1, Waited 1000])"
  by (simp add: queueWhatsAppMessage_def processMessageQueue_def push_def idle_def
      whileLoop_Cons whileLoop_Nil job_events_def MESSAGE_RATE_LIMIT_def)

text \<open>
  Claim C2, amended. \<open>queueWhatsAppMessage\<close> is total: it has no failing outcome. When
  the loop is already running, the call only appends the job and its promise settles at
  once, with no job executed and no delay. When the call starts the loop, its promise
  settles once the loop has emptied the queue. The jobs run are then exactly the pending
  ones, the new job, and every job enqueued while one of them was in progress, each run
  once in that order with its delay or its log entry; the queue is empty and the flag is
  down.
\<close>

theorem enqueue_returns:
  "(isProcessingQueue st \<longrightarrow>
      queueWhatsAppMessage st j = (push st j, [Enqueued (label j)])) \<and>
   (\<not> isProcessingQueue st \<longrightarrow>
      (\<exists>js. queueWhatsAppMessage st j =
               (idle, Enqueued (label j) # concat (map job_events js)) \<and>
             js = messageQueue st @ [j] @ concat (map meanwhile js)) \<and>
      started (snd (queueWhatsAppMessage st j)) =
        map label (messageQueue st @ [j]) @ tl (enqueued (snd (queueWhatsAppMessage st j))))"
proof (intro conjI impI)
  assume "isProcessingQueue st"
  then show "queueWhatsAppMessage st j = (push st j, [Enqueued (label j)])"
    by (rule queueWhatsAppMessage_busy)
next
  assume down: "\<not> isProcessingQueue st"
  let ?st = "push st j\<lparr>isProcessingQueue := True\<rparr>"
  obtain js where js: "snd (whileLoop ?st []) = concat (map job_events js)"
    "js = messageQueue ?st @ concat (map meanwhile js)"
    using whileLoop_jobs [of ?st] by blast
  have "queueWhatsAppMessage st j = (idle, Enqueued (label j) # concat (map job_events js)) \<and>
        js = messageQueue st @ [j] @ concat (map meanwhile js)"
    using js queueWhatsAppMessage_idle [OF down, of j]
    by (simp add: processMessageQueue_snd push_def)
  then show "\<exists>js. queueWhatsAppMessage st j =
               (idle, Enqueued (label j) # concat (map job_events js)) \<and>
             js = messageQueue st @ [j] @ concat (map meanwhile js)"
    by blast
next
  assume down: "\<not> isProcessingQueue st"
  let ?st = "push st j\<lparr>isProcessingQueue := True\<rparr>"
  have "started (snd (whileLoop ?st [])) =
        map label (messageQueue ?st) @ enqueued (snd (whileLoop ?st []))"
    by (rule whileLoop_started)
  then show "started (snd (queueWhatsAppMessage st j)) =
        map label (messageQueue st @ [j]) @ tl (enqueued (snd (queueWhatsAppMessage st j)))"
    using queueWhatsAppMessage_idle [OF down, of j]
    by (simp add: processMessageQueue_snd push_def)
qed

theorem enqueue_returns_witness:
  "queueWhatsAppMessage \<lparr>messageQueue = [Job 1 Resolves []], isProcessingQueue = True\<rparr>
     (Job 2 Resolves []) =
   (\<lparr>messageQueue = [Job 1 Resolves [], Job 2 Resolves []], isProcessingQueue = True\<rparr>,
    [Enqueued 2]) \<and>
   queueWhatsAppMessage idle (Job 1 Resolves [Job 2 (Rejects ''boom'') [], Job 3 Resolves []]) =
   (idle, [Enqueued 1, Started 1, Enqueued 2, Enqueued 3, Waited 1000,
           Started 2, Logged ''boom'', Started 3, Waited 1000])"
  using enqueue_returns [of "\<lparr>messageQueue = [Job 1 Resolves []], isProcessingQueue = True\<rparr>"
                            "Job 2 Resolves []"]
        enqueue_returns [of idle "Job 1 Resolves [Job 2 (Rejects ''boom'') [], Job 3 Resolves []]"]
  by (simp add: queueWhatsAppMessage_def processMessageQueue_def push_def idle_def
      whileLoop_Cons whileLoop_Nil job_events_def MESSAGE_RATE_LIMIT_def)

text \<open>
  Claim C3. For every sequence of calls of \<open>queueWhatsAppMessage\<close> from the initial
  state, each job carrying the further calls that arrive while it is in progress, the
  sequence of jobs started equals the sequence of jobs enqueued: same order, each job
  once, and the queue is empty afterwards, so nothing has been put back.
\<close>

theorem drain_fifo:
  "started (snd (enqueueAll idle js)) = enqueued (snd (enqueueAll idle js)) \<and>
   fst (enqueueAll idle js) = idle"
  using enqueueAll_idle [of js] by simp

theorem drain_fifo_witness:
  "started (snd (enqueueAll idle
      [Job 1 Resolves [Job 2 (Rejects ''boom'') [Job 4 Resolves []], Job 3 Resolves []],
       Job 5 Resolves []])) = [1, 2, 3, 4, 5]"
proof -
  have "enqueued (snd (enqueueAll idle
      [Job 1 Resolves [Job 2 (Rejects ''boom'') [Job 4 Resolves []], Job 3 Resolves []],
       Job 5 Resolves []])) = [1, 2, 3, 4, 5]"
    by (simp add: queueWhatsAppMessage_def processMessageQueue_def push_def idle_def
        whileLoop_Cons whileLoop_Nil job_events_def MESSAGE_RATE_LIMIT_def)
  then show ?thesis
    using drain_fifo [of "[Job 1 Resolves [Job 2 (Rejects ''boom'') [Job 4 Resolves []], Job 3 Resolves []],
       Job 5 Resolves []]"] by simp
qed

text \<open>
  Claim C4. When a pending job rejects, the loop logs the error and goes on: the jobs
  before it, the rejecting job (ending in the log entry) and the jobs behind it are run
  one after the other, and the call returns with the queue empty. Every job, pending or
  enqueued while the loop runs, is started, in the order of enqueueing. The witness is
  the scenario of three jobs where the second throws.
\<close>

theorem drain_isolates_failure:
  assumes "messageQueue st = q1 @ j # q2" and "outcome j = Rejects e"
  shows "(\<exists>rest. processMessageQueue st =
           (idle,
            concat (map job_events q1) @
            (Started (label j) # map (\<lambda>k. Enqueued (label k)) (meanwhile j) @ [Logged e]) @
            concat (map job_events q2) @ rest)) \<and>
         started (snd (processMessageQueue st)) =
           map label (messageQueue st) @ enqueued (snd (processMessageQueue st))"
proof
  show "started (snd (processMessageQueue st)) =
          map label (messageQueue st) @ enqueued (snd (processMessageQueue st))"
    using whileLoop_started [of "st\<lparr>isProcessingQueue := True\<rparr>"]
    by (simp add: processMessageQueue_snd)
next
  let ?st = "st\<lparr>isProcessingQueue := True\<rparr>"
  let ?q = "q1 @ j # q2"
  have "messageQueue ?st = ?q @ []"
    using assms(1) by simp
  then have "whileLoop ?st [] =
             whileLoop (?st\<lparr>messageQueue := [] @ concat (map meanwhile ?q)\<rparr>)
                       ([] @ concat (map job_events ?q))"
    by (rule whileLoop_prefix)
  then have "snd (processMessageQueue st) =
             concat (map job_events ?q) @
             snd (whileLoop (?st\<lparr>messageQueue := concat (map meanwhile ?q)\<rparr>) [])"
    using whileLoop_acc [of "?st\<lparr>messageQueue := concat (map meanwhile ?q)\<rparr>"
                            "concat (map job_events ?q)"]
    by (simp add: processMessageQueue_snd)
  moreover have "job_events j =
                 Started (label j) # map (\<lambda>k. Enqueued (label k)) (meanwhile j) @ [Logged e]"
    using assms(2) by (simp add: job_events_def)
  moreover have "fst (processMessageQueue st) = idle"
    by (simp add: processMessageQueue_fst idle_def)
  ultimately show "\<exists>rest. processMessageQueue st =
           (idle,
            concat (map job_events q1) @
            (Started (label j) # map (\<lambda>k. Enqueued (label k)) (meanwhile j) @ [Logged e]) @
            concat (map job_events q2) @ rest)"
    by (simp add: prod_eq_iff)
qed

theorem drain_isolates_failure_witness:
  "processMessageQueue
     \<lparr>messageQueue = [Job 1 Resolves [], Job 2 (Rejects ''boom'') [], Job 3 Resolves []],
      isProcessingQueue = False\<rparr> =
   (idle, [Started 1, Waited 1000, Started 2, Logged ''boom'', Started 3, Waited 1000])"
  using drain_isolates_failure
    [of "\<lparr>messageQueue = [Job 1 Resolves [], Job 2 (Rejects ''boom'') [], Job 3 Resolves []],
          isProcessingQueue = False\<rparr>"
        "[Job 1 Resolves []]" "Job 2 (Rejects ''boom'') []" "[Job 3 Resolves []]" "''boom''"]
  by (simp add: processMessageQueue_def idle_def
      whileLoop_Cons whileLoop_Nil job_events_def MESSAGE_RATE_LIMIT_def)

text \<open>
  The same scenario through \<open>queueWhatsAppMessage\<close>: the second and third job are
  enqueued while the first is in progress.
\<close>

lemma three_jobs_second_throws:
  "queueWhatsAppMessage idle
     (Job 1 Resolves [Job 2 (Rejects ''boom'') [], Job 3 Resolves []]) =
   (idle, [Enqueued 1, Started 1, Enqueued 2, Enqueued 3, Waited 1000,
           Started 2, Logged ''boom'', Started 3, Waited 1000])"
  by (simp add: queueWhatsAppMessage_def processMessageQueue_def push_def idle_def
      whileLoop_Cons whileLoop_Nil job_events_def MESSAGE_RATE_LIMIT_def)


section \<open>Properties of the retry wrapper\<close>

declare retryLoop.simps [simp del]

lemma retryLoop_success:
  "attempt \<le> maxRetries \<Longrightarrow> send attempt to msg mediaUrl = Inr response \<Longrightarrow>
   retryLoop send to msg mediaUrl maxRetries attempt lastError tr =
   (Inr response, tr @ [Attempt attempt])"
  by (subst retryLoop.simps) simp

lemma retryLoop_retry:
  "attempt < maxRetries \<Longrightarrow> send attempt to msg mediaUrl = Inl e \<Longrightarrow>
   retryLoop send to msg mediaUrl maxRetries attempt lastError tr =
   retryLoop send to msg mediaUrl maxRetries (attempt + 1) (Some e)
     (tr @ [Attempt attempt, Backoff (2 ^ nat attempt * 1000)])"
  by (subst retryLoop.simps) simp

lemma retryLoop_last:
  "attempt = maxRetries \<Longrightarrow> send attempt to msg mediaUrl = Inl e \<Longrightarrow>
   retryLoop send to msg mediaUrl maxRetries attempt lastError tr =
   (Inl (Error (failureMessage maxRetries (Some e))), tr @ [Attempt attempt])"
  by (subst retryLoop.simps, simp, subst retryLoop.simps, simp)

lemma retryLoop_exit:
  "maxRetries < attempt \<Longrightarrow>
   retryLoop send to msg mediaUrl maxRetries attempt lastError tr =
   (Inl (Error (failureMessage maxRetries lastError)), tr)"
  by (subst retryLoop.simps) simp

lemma retryLoop_all_fail:
  "attempt \<le> maxRetries \<Longrightarrow>
   (\<And>k. attempt \<le> k \<Longrightarrow> k \<le> maxRetries \<Longrightarrow> send k to msg mediaUrl = Inl (err k)) \<Longrightarrow>
   retryLoop send to msg mediaUrl maxRetries attempt lastError tr =
   (Inl (Error (failureMessage maxRetries (Some (err maxRetries)))),
    tr @ concat (map (\<lambda>k. [Attempt k, Backoff (2 ^ nat k * 1000)]) [attempt..maxRetries - 1])
       @ [Attempt maxRetries])"
proof (induction "nat (maxRetries - attempt)" arbitrary: attempt lastError tr)
  case 0
  then have eq: "attempt = maxRetries" by simp
  have "send attempt to msg mediaUrl = Inl (err attempt)"
    using "0.prems" by simp
  then show ?case
    using eq by (simp add: retryLoop_last)
next
  case (Suc d)
  then have lt: "attempt < maxRetries" by simp
  have f: "send attempt to msg mediaUrl = Inl (err attempt)"
    using Suc.prems by simp
  have d: "d = nat (maxRetries - (attempt + 1))"
    using Suc.hyps(2) by simp
  have up: "[attempt..maxRetries - 1] = attempt # [attempt + 1..maxRetries - 1]"
    using lt by (simp add: upto_rec1)
  have "retryLoop send to msg mediaUrl maxRetries (attempt + 1) (Some (err attempt))
          (tr @ [Attempt attempt, Backoff (2 ^ nat attempt * 1000)]) =
        (Inl (Error (failureMessage maxRetries (Some (err maxRetries)))),
         (tr @ [Attempt attempt, Backoff (2 ^ nat attempt * 1000)]) @
         concat (map (\<lambda>k. [Attempt k, Backoff (2 ^ nat k * 1000)]) [attempt + 1..maxRetries - 1])
         @ [Attempt maxRetries])"
    using lt Suc.prems(2) by (intro Suc.hyps(1) [OF d]) simp_all
  then show ?case
    using lt f by (simp add: retryLoop_retry up)
qed

lemma retryLoop_early_success:
  "attempt \<le> k \<Longrightarrow> k \<le> maxRetries \<Longrightarrow>
   (\<And>i. attempt \<le> i \<Longrightarrow> i < k \<Longrightarrow> send i to msg mediaUrl = Inl (err i)) \<Longrightarrow>
   send k to msg mediaUrl = Inr response \<Longrightarrow>
   retryLoop send to msg mediaUrl maxRetries attempt lastError tr =
   (Inr response,
    tr @ concat (map (\<lambda>i. [Attempt i, Backoff (2 ^ nat i * 1000)]) [attempt..k - 1])
       @ [Attempt k])"
proof (induction "nat (k - attempt)" arbitrary: attempt lastError tr)
  case 0
  then have eq: "attempt = k" by simp
  then show ?case
    using "0.prems" by (simp add: retryLoop_success)
next
  case (Suc d)
  then have lt: "attempt < k" by simp
  have f: "send attempt to msg mediaUrl = Inl (err attempt)"
    using Suc.prems(3) lt by simp
  have d: "d = nat (k - (attempt + 1))"
    using Suc.hyps(2) by simp
  have up: "[attempt..k - 1] = attempt # [attempt + 1..k - 1]"
    using lt by (simp add: upto_rec1)
  have "retryLoop send to msg mediaUrl maxRetries (attempt + 1) (Some (err attempt))
          (tr @ [Attempt attempt, Backoff (2 ^ nat attempt * 1000)]) =
        (Inr response,
         (tr @ [Attempt attempt, Backoff (2 ^ nat attempt * 1000)]) @
         concat (map (\<lambda>i. [Attempt i, Backoff (2 ^ nat i * 1000)]) [attempt + 1..k - 1])
         @ [Attempt k])"
    using lt Suc.prems by (intro Suc.hyps(1) [OF d]) simp_all
  then show ?case
    using lt f Suc.prems(2) by (simp add: retryLoop_retry up)
qed

lemma sendWhatsAppWithRetry_default:
  "sendWhatsAppWithRetry send to msg None mediaUrl =
   sendWhatsAppWithRetry send to msg (Some 3) mediaUrl"
  by (simp add: sendWhatsAppWithRetry_def)

text \<open>
  Claim C5. With \<open>maxRetries = 3\<close> and a provider call that fails at each of the three
  attempts, the provider call is invoked exactly three times, a delay of 2000 ms follows
  the first failure and one of 4000 ms the second, none follows the third, and the call
  fails with an error whose message ends with the message of the third failure.
\<close>

theorem retry_three_failures:
  assumes "\<forall>k \<in> {1, 2, 3}. send k to msg mediaUrl = Inl (err k)"
  shows "sendWhatsAppWithRetry send to msg (Some 3) mediaUrl =
         (Inl (Error (''WhatsApp send failed after 3 attempts. Last error: '' @ err 3)),
          [Attempt 1, Backoff 2000, Attempt 2, Backoff 4000, Attempt 3])"
proof -
  have "retryLoop send to msg mediaUrl 3 1 None [] =
        (Inl (Error (failureMessage 3 (Some (err 3)))),
         [] @ concat (map (\<lambda>k. [Attempt k, Backoff (2 ^ nat k * 1000)]) [1..3 - 1])
            @ [Attempt 3])"
  proof (rule retryLoop_all_fail)
    show "(1::int) \<le> 3" by simp
  next
    fix k :: int
    assume "1 \<le> k" and "k \<le> 3"
    then have "k \<in> {1, 2, 3}" by auto
    with assms show "send k to msg mediaUrl = Inl (err k)" by blast
  qed
  moreover have "[1..3 - 1] = [1, 2::int]"
    by (simp add: upto_rec1)
  moreover have "failureMessage 3 (Some (err 3)) =
                 ''WhatsApp send failed after 3 attempts. Last error: '' @ err 3"
    by (simp add: failureMessage_def numberToString_def digit_def)
  ultimately show ?thesis
    by (simp add: sendWhatsAppWithRetry_def)
qed

theorem retry_three_failures_witness:
  "sendWhatsAppWithRetry (\<lambda>k to msg mediaUrl. Inl (if k = 3 then ''timeout'' else ''busy''))
     ''+15550100'' ''hello'' (Some 3) None =
   (Inl (Error ''WhatsApp send failed after 3 attempts. Last error: timeout''),
    [Attempt 1, Backoff 2000, Attempt 2, Backoff 4000, Attempt 3])"
  using retry_three_failures
    [of "\<lambda>k to msg mediaUrl. Inl (if k = 3 then ''timeout'' else ''busy'')"
        "''+15550100''" "''hello''" None "\<lambda>k. if k = 3 then ''timeout'' else ''busy''"]
  by simp

text \<open>
  Claim C6. If attempt \<open>k\<close> is the first that succeeds, its response is the result;
  the trace ends with attempt \<open>k\<close>: the failed attempts before it are each followed by
  their backoff delay, and neither a delay nor an attempt follows attempt \<open>k\<close>. The
  witness is success at attempt 2 of 3.
\<close>

theorem retry_early_success:
  assumes "1 \<le> k" and "k \<le> maxRetries"
    and "\<forall>i. 1 \<le> i \<and> i < k \<longrightarrow> send i to msg mediaUrl = Inl (err i)"
    and "send k to msg mediaUrl = Inr response"
  shows "sendWhatsAppWithRetry send to msg (Some maxRetries) mediaUrl =
         (Inr response,
          concat (map (\<lambda>i. [Attempt i, Backoff (2 ^ nat i * 1000)]) [1..k - 1]) @ [Attempt k])"
  using retryLoop_early_success [of 1 k maxRetries send to msg mediaUrl err response None "[]"] assms
  by (simp add: sendWhatsAppWithRetry_def)

theorem retry_early_success_witness:
  "sendWhatsAppWithRetry
     (\<lambda>k to msg mediaUrl. if k = 2
        then Inr \<lparr>messageId = ''m1'', status = ''sent'', timestamp = ''t'', provider = ''mock''\<rparr>
        else Inl ''busy'')
     ''+15550100'' ''hello'' (Some 3) None =
   (Inr \<lparr>messageId = ''m1'', status = ''sent'', timestamp = ''t'', provider = ''mock''\<rparr>,
    [Attempt 1, Backoff 2000, Attempt 2])"
proof -
  have up: "[1..2 - 1] = [1::int]"
    by (simp add: upto_rec1)
  show ?thesis
    using retry_early_success
      [of 2 3 "\<lambda>k to msg mediaUrl. if k = 2
        then Inr \<lparr>messageId = ''m1'', status = ''sent'', timestamp = ''t'', provider = ''mock''\<rparr>
        else Inl ''busy''" "''+15550100''" "''hello''" None "\<lambda>k. ''busy''"
        "\<lparr>messageId = ''m1'', status = ''sent'', timestamp = ''t'', provider = ''mock''\<rparr>"]
    by (simp add: up)
qed

text \<open>
  Claim C10. With \<open>maxRetries\<close> zero or negative the loop body is never entered: the
  provider call is not invoked, there is no delay, and the call fails with the error
  built from a \<open>lastError\<close> that is still \<open>null\<close>, which the message renders as
  \<open>undefined\<close>. The count in the message is the decimal rendering of \<open>maxRetries\<close>
  when that is a safe integer.
\<close>

theorem retry_no_attempts:
  assumes "maxRetries \<le> 0"
  shows "\<exists>count.
           sendWhatsAppWithRetry send to msg (Some maxRetries) mediaUrl =
             (Inl (Error (''WhatsApp send failed after '' @ count @
                          '' attempts. Last error: undefined'')), []) \<and>
           (- 9007199254740991 \<le> maxRetries \<longrightarrow> count = numberToString maxRetries)"
  using assms by (simp add: sendWhatsAppWithRetry_def retryLoop_exit failureMessage_def)

theorem retry_no_attempts_witness:
  "sendWhatsAppWithRetry
     (\<lambda>k to msg mediaUrl.
        Inr \<lparr>messageId = ''m1'', status = ''sent'', timestamp = ''t'', provider = ''mock''\<rparr>)
     ''+15550100'' ''hello'' (Some 0) None =
   (Inl (Error ''WhatsApp send failed after 0 attempts. Last error: undefined''), [])"
  using retry_no_attempts
    [of 0 "\<lambda>k to msg mediaUrl.
        Inr \<lparr>messageId = ''m1'', status = ''sent'', timestamp = ''t'', provider = ''mock''\<rparr>"
        "''+15550100''" "''hello''" None]
  by (auto simp: numberToString_def digit_def)


section \<open>Properties of the data access layer\<close>

text \<open>
  \<open>update\<close> hands the statement to the driver: an error of the driver is the error of
  \<open>update\<close>, and otherwise the result is whether the driver counted a change.
\<close>

lemma update_throws:
  "run_changes drv db (update_query table data where) (map snd data @ whereParams) = Inl e \<Longrightarrow>
   update drv db table data where whereParams = Inl e"
  by (simp add: update_def stmt_run_def)

lemma update_returns_changed:
  "run_changes drv db (update_query table data where) (map snd data @ whereParams) =
     Inr (changes, db') \<Longrightarrow>
   update drv db table data where whereParams = Inr (0 < changes, db')"
  by (simp add: update_def stmt_run_def)

lemma update_query_Cons:
  "data \<noteq> [] \<Longrightarrow>
   update_query table data where =
   ''UPDATE '' @ table @ '' SET '' @ join '', '' (map (\<lambda>c. fst c @ '' = ?'') data) @
   '', updated_at = CURRENT_TIMESTAMP WHERE '' @ where"
  by (simp add: update_query_def comp_def)

subsection \<open>The statement of \<open>update\<close> on the reference store\<close>

lemma split_spaces_nonempty: "split_spaces s \<noteq> []"
  by (induction s) (auto split: list.split)

lemma split_spaces_space:
  "split_spaces (a @ CHR '' '' # b) = split_spaces a @ split_spaces b"
proof (induction a)
  case Nil
  show ?case by simp
next
  case (Cons c a)
  obtain w ws where w: "split_spaces a = w # ws"
    using split_spaces_nonempty [of a] by (cases "split_spaces a") auto
  show ?case
    using Cons.IH by (simp add: w)
qed

lemma split_spaces_word:
  "CHR '' '' \<notin> set a \<Longrightarrow> split_spaces a = [a]"
  by (induction a) auto




text \<open>The tokens of the \<open>SET\<close> list and what follows it.\<close>

lemma split_spaces_tail:
  "split_spaces ('', updated_at = CURRENT_TIMESTAMP WHERE '' @ w) =
   '','' # ''updated_at'' # ''='' # ''CURRENT_TIMESTAMP'' # ''WHERE'' # split_spaces w"
proof -
  have "'', updated_at = CURRENT_TIMESTAMP WHERE '' @ w =
        '','' @ CHR '' '' # (''updated_at'' @ CHR '' '' # (''='' @ CHR '' '' #
          (''CURRENT_TIMESTAMP'' @ CHR '' '' # (''WHERE'' @ CHR '' '' # w))))"
    by simp
  then show ?thesis
    by (simp only: split_spaces_space) (simp add: split_spaces_word)
qed



lemma split_spaces_update_query:
  assumes "CHR '' '' \<notin> set table"
  shows "split_spaces (update_query table data where) =
         ''UPDATE'' # table # ''SET'' #
         split_spaces (join '', '' (map (\<lambda>key. key @ '' = ?'') (map fst data)) @
                       '', updated_at = CURRENT_TIMESTAMP WHERE '' @ where)"
proof -
  have "update_query table data where =
        ''UPDATE'' @ CHR '' '' # (table @ CHR '' '' # (''SET'' @ CHR '' '' #
          (join '', '' (map (\<lambda>key. key @ '' = ?'') (map fst data)) @
           '', updated_at = CURRENT_TIMESTAMP WHERE '' @ where)))"
    by (simp add: update_query_def)
  then show ?thesis
    using assms by (simp only: split_spaces_space) (simp add: split_spaces_word)
qed



lemma parse_update_empty_row:
  assumes "CHR '' '' \<notin> set table"
  shows "parse_update eng (update_query table [] where) = None"
proof -
  have "split_spaces (update_query table [] where) =
        ''UPDATE'' # table # ''SET'' # '','' # ''updated_at'' # ''='' # ''CURRENT_TIMESTAMP'' #
        ''WHERE'' # split_spaces where"
    using split_spaces_update_query [OF assms, of "[]" "where"] split_spaces_tail [of "where"]
    by simp
  then show ?thesis
    by (simp add: parse_update_def plain_name_def name_char_def)
qed










text \<open>
  An empty partial row gives a \<open>SET\<close> list that starts with a comma, and a table
  without an \<open>updated_at\<close> column cannot take the stamp: the store rejects both
  statements and \<open>update\<close> throws the store's error.
\<close>

lemma update_empty_row:
  "CHR '' '' \<notin> set table \<Longrightarrow>
   update (sqlite eng) db table [] where whereParams = Inl ''statement not understood''"
  using parse_update_empty_row [of table eng "where"]
  by (simp add: update_def stmt_run_def sqlite_def sqlite_run_def)

lemma update_missing_column:
  "update (sqlite sample_engine) sample_settings ''admin_users''
     [(''last_login'', Text ''2024-01-01T00:00:00.000Z'')] ''id = ?'' [Integer 1] =
   Inl ''no such column''"
  by code_simp






text \<open>
  Claim C8. \<open>selectOne\<close> runs \<open>SELECT * FROM table WHERE where LIMIT 1\<close>. When the
  result set of that statement is empty it returns the absent value, and does not throw;
  when the result set is not empty it returns its first row.
\<close>

theorem selectOne_first_or_absent:
  "(query_rows drv db (''SELECT * FROM '' @ table @ '' WHERE '' @ where @ '' LIMIT 1'') params
      = Inr [] \<longrightarrow>
    selectOne drv db table where params = Inr None) \<and>
   (query_rows drv db (''SELECT * FROM '' @ table @ '' WHERE '' @ where @ '' LIMIT 1'') params
      = Inr (r # rs) \<longrightarrow>
    selectOne drv db table where params = Inr (Some r))"
  by (simp add: selectOne_def selectOne_query_def stmt_get_def)

theorem selectOne_first_or_absent_witness:
  "selectOne \<lparr>query_rows = (\<lambda>db query params. Inr db),
              run_changes = (\<lambda>db query params. Inl ''read only'')\<rparr>
     [] ''settings'' ''key = ?'' [Text ''company_name''] = Inr None \<and>
   selectOne \<lparr>query_rows = (\<lambda>db query params. Inr db),
              run_changes = (\<lambda>db query params. Inl ''read only'')\<rparr>
     [[(''key'', Text ''company_name''), (''value'', Text ''Prestige Timepieces'')]]
     ''settings'' ''key = ?'' [Text ''company_name''] =
   Inr (Some [(''key'', Text ''company_name''), (''value'', Text ''Prestige Timepieces'')])"
  using selectOne_first_or_absent
    [of "\<lparr>query_rows = (\<lambda>db query params. Inr db),
          run_changes = (\<lambda>db query params. Inl ''read only'')\<rparr>"
        "[]" "''settings''" "''key = ?''" "[Text ''company_name'']"]
    selectOne_first_or_absent
    [of "\<lparr>query_rows = (\<lambda>db query params. Inr db),
          run_changes = (\<lambda>db query params. Inl ''read only'')\<rparr>"
        "[[(''key'', Text ''company_name''), (''value'', Text ''Prestige Timepieces'')]]"
        "''settings''" "''key = ?''" "[Text ''company_name'']"
        "[(''key'', Text ''company_name''), (''value'', Text ''Prestige Timepieces'')]" "[]"]
  by simp

text \<open>
  Claim C9. \<open>selectAll\<close> with the empty string as where-clause is \<open>selectAll\<close>
  with no where-clause: both run \<open>SELECT * FROM table\<close>, with no \<open>WHERE\<close>, and
  return its result set.
\<close>

theorem selectAll_empty_where:
  "selectAll drv db table (Some '''') params = selectAll drv db table None params \<and>
   selectAll drv db table None params =
     query_rows drv db (''SELECT * FROM '' @ table) (case params of None \<Rightarrow> [] | Some ps \<Rightarrow> ps)"
  by (simp add: selectAll_def selectAll_query_def stmt_all_def)

end
